theory Spec2Isabelle
  imports Main
begin

section \<open>JavaScript values\<close>

text \<open>
  The dispatcher of \<^verbatim>\<open>src/lib/api.js\<close> works on decoded JSON payloads, on header strings
  and on a few mutable objects that it shares with its caller. Values are modelled as
  follows: numbers are integers or \<^verbatim>\<open>NaN\<close> (timestamps in milliseconds, counters and
  status codes; arithmetic is exact), a decoded payload is a tree given by value, and
  \<open>JRef a\<close> is a reference to the mutable object stored at address \<open>a\<close> of the heap.
\<close>

type_synonym addr = nat

datatype jsnum = Num int | NaN

datatype jsval =
    JUndefined
  | JNull
  | JBool bool
  | JNum jsnum
  | JStr string
  | JArr "jsval list"
  | JObj "(string \<times> jsval) list"
  | JRef addr

text \<open>Truthiness, as \<^verbatim>\<open>if (v)\<close>, \<^verbatim>\<open>!v\<close> and \<^verbatim>\<open>a && b\<close> test it.\<close>

fun truthy :: "jsval \<Rightarrow> bool" where
  "truthy JUndefined = False"
| "truthy JNull = False"
| "truthy (JBool b) = b"
| "truthy (JNum (Num n)) = (n \<noteq> 0)"
| "truthy (JNum NaN) = False"
| "truthy (JStr s) = (s \<noteq> [])"
| "truthy (JArr _) = True"
| "truthy (JObj _) = True"
| "truthy (JRef _) = True"

subsection \<open>Numbers and strings\<close>

definition digit_char :: "nat \<Rightarrow> char" where
  "digit_char d = char_of (48 + d)"

fun string_of_nat :: "nat \<Rightarrow> string" where
  "string_of_nat n =
     (if n < 10 then [digit_char n] else string_of_nat (n div 10) @ [digit_char (n mod 10)])"

definition string_of_int :: "int \<Rightarrow> string" where
  "string_of_int i = (if i < 0 then CHR ''-'' # string_of_nat (nat (- i)) else string_of_nat (nat i))"

definition is_ws :: "char \<Rightarrow> bool" where
  "is_ws c = (c \<in> set [CHR '' '', CHR 0x09, CHR 0x0A, CHR 0x0B, CHR 0x0C, CHR 0x0D])"

definition trim :: "string \<Rightarrow> string" where
  "trim s = rev (dropWhile is_ws (rev (dropWhile is_ws s)))"

definition is_digit :: "char \<Rightarrow> bool" where
  "is_digit c = (48 \<le> (of_char c :: nat) \<and> (of_char c :: nat) \<le> 57)"

definition digits_val :: "string \<Rightarrow> nat" where
  "digits_val cs = foldl (\<lambda>a c. 10 * a + ((of_char c :: nat) - 48)) 0 cs"

definition all_digits :: "string \<Rightarrow> bool" where
  "all_digits cs = (cs \<noteq> [] \<and> list_all is_digit cs)"

text \<open>
  \<^verbatim>\<open>Number(s)\<close> on a string: surrounding white space is dropped, the empty string is
  \<open>0\<close>, an optionally signed run of decimal digits is that integer, and text that is no
  numeric literal is \<^verbatim>\<open>NaN\<close>. Literals with a fraction, an exponent or a radix prefix and
  \<^verbatim>\<open>Infinity\<close> have no value among the integers of this model; they come out as \<open>NaN\<close>
  here, and no statement below is evaluated at such a string.
\<close>

definition Number_js :: "string \<Rightarrow> jsnum" where
  "Number_js s =
     (case trim s of
        [] \<Rightarrow> Num 0
      | c # cs \<Rightarrow>
          if c = CHR ''-'' then (if all_digits cs then Num (- int (digits_val cs)) else NaN)
          else if c = CHR ''+'' then (if all_digits cs then Num (int (digits_val cs)) else NaN)
          else if all_digits (c # cs) then Num (int (digits_val (c # cs)))
          else NaN)"

text \<open>
  \<^verbatim>\<open>s.split(sep)\<close> for a non-empty separator: the pieces between the successive,
  non-overlapping occurrences of \<open>sep\<close>, read from the left. The result is never empty.
\<close>

function split_js :: "string \<Rightarrow> string \<Rightarrow> string \<Rightarrow> string list" where
  "split_js sep acc [] = [rev acc]"
| "split_js sep acc (c # cs) =
     (if sep \<noteq> [] \<and> take (length sep) (c # cs) = sep
      then rev acc # split_js sep [] (drop (length sep) (c # cs))
      else split_js sep (c # acc) cs)"
  by pat_completeness auto
termination
  by (relation "measure (\<lambda>(sep, acc, s). length s)") auto

definition split :: "string \<Rightarrow> string \<Rightarrow> string list" where
  "split s sep = split_js sep [] s"

subsection \<open>Coercions and operators\<close>

text \<open>\<^verbatim>\<open>String(v)\<close>, as string concatenation with \<^verbatim>\<open>+\<close> applies it to an operand.\<close>

fun join_js :: "string \<Rightarrow> string list \<Rightarrow> string" where
  "join_js sep [] = []"
| "join_js sep [x] = x"
| "join_js sep (x # y # ys) = x @ sep @ join_js sep (y # ys)"

fun toStr :: "jsval \<Rightarrow> string" where
  "toStr JUndefined = ''undefined''"
| "toStr JNull = ''null''"
| "toStr (JBool b) = (if b then ''true'' else ''false'')"
| "toStr (JNum (Num n)) = string_of_int n"
| "toStr (JNum NaN) = ''NaN''"
| "toStr (JStr s) = s"
| "toStr (JArr xs) =
     join_js '','' (map (\<lambda>x. if x = JUndefined \<or> x = JNull then [] else toStr x) xs)"
| "toStr (JObj _) = ''[object Object]''"
| "toStr (JRef _) = ''[object Object]''"

text \<open>\<^verbatim>\<open>Number(v)\<close>, as \<^verbatim>\<open>*\<close>, \<^verbatim>\<open>-\<close> and \<^verbatim>\<open>>\<close> apply it to an operand.\<close>

fun toNumber :: "jsval \<Rightarrow> jsnum" where
  "toNumber JUndefined = NaN"
| "toNumber JNull = Num 0"
| "toNumber (JBool b) = Num (if b then 1 else 0)"
| "toNumber (JNum n) = n"
| "toNumber (JStr s) = Number_js s"
| "toNumber v = Number_js (toStr v)"

fun num_add :: "jsnum \<Rightarrow> jsnum \<Rightarrow> jsnum" where
  "num_add (Num a) (Num b) = Num (a + b)"
| "num_add _ _ = NaN"

fun num_sub :: "jsnum \<Rightarrow> jsnum \<Rightarrow> jsnum" where
  "num_sub (Num a) (Num b) = Num (a - b)"
| "num_sub _ _ = NaN"

fun num_mul :: "jsnum \<Rightarrow> jsnum \<Rightarrow> jsnum" where
  "num_mul (Num a) (Num b) = Num (a * b)"
| "num_mul _ _ = NaN"

text \<open>\<^verbatim>\<open>a > b\<close> on numbers: false as soon as one side is \<^verbatim>\<open>NaN\<close>.\<close>

fun num_gt :: "jsnum \<Rightarrow> jsnum \<Rightarrow> bool" where
  "num_gt (Num a) (Num b) = (a > b)"
| "num_gt _ _ = False"

section \<open>Rate-limit snapshot\<close>

text \<open>
  One entry of \<^verbatim>\<open>self.rateLimits\<close>. The three counters hold whatever the last header
  put there: a number, or \<^verbatim>\<open>undefined\<close> when the header had too few cells.
\<close>

record rate_limit =
  minutesInterval :: int
  callsMade :: jsval
  callsRemaining :: jsval
  resetTimeMillis :: jsval

definition initialRateLimits :: "rate_limit list" where
  "initialRateLimits =
     [\<lparr>minutesInterval = 15, callsMade = JNum (Num 0), callsRemaining = JNum (Num 0),
        resetTimeMillis = JNum (Num 0)\<rparr>,
      \<lparr>minutesInterval = 30, callsMade = JNum (Num 0), callsRemaining = JNum (Num 0),
        resetTimeMillis = JNum (Num 0)\<rparr>,
      \<lparr>minutesInterval = 60, callsMade = JNum (Num 0), callsRemaining = JNum (Num 0),
        resetTimeMillis = JNum (Num 0)\<rparr>,
      \<lparr>minutesInterval = 24 * 60, callsMade = JNum (Num 0), callsRemaining = JNum (Num 0),
        resetTimeMillis = JNum (Num 0)\<rparr>]"

text \<open>Response headers as the HTTP client hands them over: lower-case names to strings.\<close>

type_synonym headers = "string \<rightharpoonup> string"

text \<open>\<^verbatim>\<open>h.split(', ').map(Number)\<close>, and reading the array at an index (\<^verbatim>\<open>undefined\<close> past its end).\<close>

definition cells :: "string \<Rightarrow> jsval list" where
  "cells s = map (\<lambda>c. JNum (Number_js c)) (split s '', '')"

definition at_js :: "jsval list \<Rightarrow> nat \<Rightarrow> jsval" where
  "at_js xs i = (if i < length xs then xs ! i else JUndefined)"

text \<open>
  The assignments \<^verbatim>\<open>self.rateLimits[i].f = v[i]\<close> for the listed indices, in order. An
  assignment to a missing entry throws a TypeError: the flag is then \<open>False\<close>, and the
  assignments made before it stay.
\<close>

fun assignAll :: "(jsval \<Rightarrow> rate_limit \<Rightarrow> rate_limit) \<Rightarrow> jsval list \<Rightarrow> nat list \<Rightarrow>
    rate_limit list \<Rightarrow> rate_limit list \<times> bool" where
  "assignAll upd v [] rls = (rls, True)"
| "assignAll upd v (i # is) rls =
     (if i < length rls then assignAll upd v is (rls[i := upd (at_js v i) (rls ! i)])
      else (rls, False))"

text \<open>One of the three \<^verbatim>\<open>if (headers[name] !== undefined && ...split(', ').length > 0)\<close> blocks.\<close>

definition headerBlock :: "headers \<Rightarrow> string \<Rightarrow> (jsval \<Rightarrow> rate_limit \<Rightarrow> rate_limit) \<Rightarrow>
    rate_limit list \<Rightarrow> rate_limit list \<times> bool" where
  "headerBlock h name upd rls =
     (case h name of
        None \<Rightarrow> (rls, True)
      | Some s \<Rightarrow>
          if length (split s '', '') > 0 then assignAll upd (cells s) [0, 1, 2, 3] rls
          else (rls, True))"

text \<open>
  \<^verbatim>\<open>setRateLimits(self, headers)\<close> on the \<^verbatim>\<open>rateLimits\<close> field of \<^verbatim>\<open>self\<close>. The three
  blocks stand in one \<^verbatim>\<open>try\<close>: a throw in one skips the rest, and the \<^verbatim>\<open>catch\<close> only
  logs.
\<close>

definition setRateLimits :: "rate_limit list \<Rightarrow> headers option \<Rightarrow> rate_limit list" where
  "setRateLimits rls headers =
     (let rls0 = (if rls = [] then initialRateLimits else rls) in
      case headers of
        None \<Rightarrow> rls0
      | Some h \<Rightarrow>
          (case headerBlock h ''x-ratelimit'' (\<lambda>v e. e\<lparr>callsMade := v\<rparr>) rls0 of
             (r1, False) \<Rightarrow> r1
           | (r1, True) \<Rightarrow>
               (case headerBlock h ''x-ratelimit-remaining'' (\<lambda>v e. e\<lparr>callsRemaining := v\<rparr>) r1 of
                  (r2, False) \<Rightarrow> r2
                | (r2, True) \<Rightarrow>
                    fst (headerBlock h ''x-ratelimit-reset'' (\<lambda>v e. e\<lparr>resetTimeMillis := v\<rparr>) r2))))"

text \<open>The snapshot after a sequence of responses, from the constructor's empty list.\<close>

definition snapshotAfter :: "headers option list \<Rightarrow> rate_limit list" where
  "snapshotAfter hs = foldl setRateLimits [] hs"

text \<open>
  What one response does to window \<open>i\<close> alone, written per window: each counter takes
  cell \<open>i\<close> of its header when that header is present and keeps its value otherwise.
\<close>

definition updWindow :: "nat \<Rightarrow> headers option \<Rightarrow> rate_limit \<Rightarrow> rate_limit" where
  "updWindow i headers e =
     (case headers of
        None \<Rightarrow> e
      | Some h \<Rightarrow>
          e\<lparr>callsMade := (case h ''x-ratelimit'' of None \<Rightarrow> callsMade e
                            | Some s \<Rightarrow> at_js (cells s) i),
            callsRemaining := (case h ''x-ratelimit-remaining'' of None \<Rightarrow> callsRemaining e
                            | Some s \<Rightarrow> at_js (cells s) i),
            resetTimeMillis := (case h ''x-ratelimit-reset'' of None \<Rightarrow> resetTimeMillis e
                            | Some s \<Rightarrow> at_js (cells s) i)\<rparr>)"

definition nonneg :: "jsval \<Rightarrow> bool" where
  "nonneg v = (case v of JNum (Num n) \<Rightarrow> 0 \<le> n | _ \<Rightarrow> False)"

definition entry_nonneg :: "rate_limit \<Rightarrow> bool" where
  "entry_nonneg e = (nonneg (callsMade e) \<and> nonneg (callsRemaining e) \<and> nonneg (resetTimeMillis e))"

definition rateLimitHeaderNames :: "string list" where
  "rateLimitHeaderNames = [''x-ratelimit'', ''x-ratelimit-remaining'', ''x-ratelimit-reset'']"

text \<open>Every cell that a response supplies for the four windows is a non-negative number.\<close>

definition cellsNonneg :: "headers option \<Rightarrow> bool" where
  "cellsNonneg hdrs =
     (case hdrs of
        None \<Rightarrow> True
      | Some h \<Rightarrow>
          list_all (\<lambda>name. case h name of
                             None \<Rightarrow> True
                           | Some s \<Rightarrow> list_all (\<lambda>i. nonneg (at_js (cells s) i)) [0, 1, 2, 3])
                   rateLimitHeaderNames)"

section \<open>Objects and the heap\<close>

text \<open>
  An object's own enumerable properties, in insertion order. \<open>getProp\<close> is \<^verbatim>\<open>o[k]\<close>,
  \<open>setProp\<close> is \<^verbatim>\<open>o[k] = v\<close> (a known key keeps its place, a new key goes last) and
  \<open>extend_js\<close> is underscore's \<^verbatim>\<open>_.extend(dst, src)\<close> and \<^verbatim>\<open>_.extendOwn(dst, src)\<close> for one
  source: \<^verbatim>\<open>dst[key] = src[key]\<close> for every key of \<open>src\<close>, in order.
\<close>

type_synonym props = "(string \<times> jsval) list"

definition getProp :: "props \<Rightarrow> string \<Rightarrow> jsval" where
  "getProp ps k = (case map_of ps k of None \<Rightarrow> JUndefined | Some v \<Rightarrow> v)"

fun setProp :: "string \<Rightarrow> jsval \<Rightarrow> props \<Rightarrow> props" where
  "setProp k v [] = [(k, v)]"
| "setProp k v ((k', v') # ps) = (if k = k' then (k, v) # ps else (k', v') # setProp k v ps)"

definition keys :: "props \<Rightarrow> string list" where
  "keys ps = map fst ps"

definition extend_js :: "props \<Rightarrow> props \<Rightarrow> props" where
  "extend_js dst src = foldl (\<lambda>d k. setProp k (getProp src k) d) dst (keys src)"

text \<open>\<^verbatim>\<open>_.difference(xs, ys)\<close> and \<^verbatim>\<open>_.pick(o, ks)\<close>.\<close>

definition difference :: "string list \<Rightarrow> string list \<Rightarrow> string list" where
  "difference xs ys = filter (\<lambda>x. x \<notin> set ys) xs"

definition pick :: "props \<Rightarrow> string list \<Rightarrow> props" where
  "pick ps ks = foldl (\<lambda>r k. if k \<in> set (keys ps) then setProp k (getProp ps k) r else r) [] ks"

text \<open>
  The model classes live in \<^verbatim>\<open>lib/models\<close>, outside the file that is embedded here. An
  object therefore carries what the dispatcher asks of its class: whether it is an instance
  of \<^verbatim>\<open>EntityBase\<close> and of which of the classes that \<^verbatim>\<open>canReadSubRequestData\<close> tests, the
  list its \<^verbatim>\<open>getReadOnlyProperties()\<close> returns, and what its \<^verbatim>\<open>toJSON()\<close> does: \<open>json\<close> is
  \<open>None\<close> for an object without that method, and otherwise holds the properties of the
  object that the method returns. That object is the receiver itself when \<open>jsonSelf\<close> is
  true, and the method has then left the receiver with these properties; it is a new
  object when \<open>jsonSelf\<close> is false, and the method has then left the receiver with the
  properties \<open>jsonLeaves\<close>.
\<close>

datatype model = PayIn | PayOut | BankAccount | OtherEntity

record obj =
  props :: props
  cls :: "model option"
  readOnly :: "string list"
  json :: "props option"
  jsonSelf :: bool
  jsonLeaves :: props

type_synonym heap = "obj list"

definition plainObj :: "props \<Rightarrow> obj" where
  "plainObj ps =
     \<lparr>props = ps, cls = None, readOnly = [], json = None, jsonSelf = False, jsonLeaves = []\<rparr>"

text \<open>
  References always point at allocated objects; the object read at an address that was
  never allocated is the empty one, and a write there is dropped.
\<close>

definition deref :: "heap \<Rightarrow> addr \<Rightarrow> obj" where
  "deref h a = (if a < length h then h ! a else plainObj [])"

definition alloc :: "heap \<Rightarrow> obj \<Rightarrow> addr \<times> heap" where
  "alloc h ob = (length h, h @ [ob])"

definition setProps :: "heap \<Rightarrow> addr \<Rightarrow> props \<Rightarrow> heap" where
  "setProps h a ps = (if a < length h then h[a := (h ! a)\<lparr>props := ps\<rparr>] else h)"

text \<open>
  \<^verbatim>\<open>v.name\<close>: a TypeError on \<^verbatim>\<open>undefined\<close> and \<^verbatim>\<open>null\<close>, the property of an object, and
  \<^verbatim>\<open>undefined\<close> on the other values a payload can be.
\<close>

definition readProp :: "heap \<Rightarrow> jsval \<Rightarrow> string \<Rightarrow> string + jsval" where
  "readProp h v name =
     (case v of
        JUndefined \<Rightarrow> Inl ''TypeError''
      | JNull \<Rightarrow> Inl ''TypeError''
      | JObj ps \<Rightarrow> Inr (getProp ps name)
      | JRef a \<Rightarrow> Inr (getProp (props (deref h a)) name)
      | _ \<Rightarrow> Inr JUndefined)"

text \<open>The enumerable keys of a decoded payload with their values, as \<^verbatim>\<open>_.extend\<close> copies them.\<close>

definition allKeys :: "jsval \<Rightarrow> props" where
  "allKeys v =
     (case v of
        JObj ps \<Rightarrow> ps
      | JArr xs \<Rightarrow> zip (map string_of_nat [0..<length xs]) xs
      | _ \<Rightarrow> [])"

section \<open>Serialising an entity: \<^verbatim>\<open>buildRequestData\<close>\<close>

definition canReadSubRequestData :: "obj \<Rightarrow> string \<Rightarrow> bool" where
  "canReadSubRequestData entity propertyName =
     (if cls entity = Some PayIn \<and>
         (propertyName = ''PaymentDetails'' \<or> propertyName = ''ExecutionDetails'') then True
      else if cls entity = Some PayOut \<and> propertyName = ''MeanOfPaymentDetails'' then True
      else if cls entity = Some BankAccount \<and> propertyName = ''Details'' then True
      else False)"

text \<open>
  \<^verbatim>\<open>v.toJSON()\<close>: the call succeeds on a reference to an object that has the method and is
  a TypeError on every other value.
\<close>

definition callToJSON :: "heap \<Rightarrow> jsval \<Rightarrow> string + props" where
  "callToJSON h v =
     (case v of
        JRef a \<Rightarrow> (case json (deref h a) of Some j \<Rightarrow> Inr j | None \<Rightarrow> Inl ''TypeError'')
      | _ \<Rightarrow> Inl ''TypeError'')"

text \<open>The \<^verbatim>\<open>_.each(_.keys(entity), ...)\<close> loop of \<^verbatim>\<open>buildRequestData\<close>.\<close>

fun inlineSubObjects :: "heap \<Rightarrow> obj \<Rightarrow> string list \<Rightarrow> props \<Rightarrow> string + props" where
  "inlineSubObjects h entity [] requestData = Inr requestData"
| "inlineSubObjects h entity (key # ks) requestData =
     (if canReadSubRequestData entity key then
        (case callToJSON h (getProp (props entity) key) of
           Inl e \<Rightarrow> Inl e
         | Inr j \<Rightarrow> inlineSubObjects h entity ks (extend_js requestData j))
      else inlineSubObjects h entity ks requestData)"

definition buildRequestData :: "heap \<Rightarrow> obj \<Rightarrow> string + props" where
  "buildRequestData h entity =
     (let blackList = readOnly entity;
          requestDataKeys = difference (keys (props entity)) blackList;
          requestData = pick (props entity) requestDataKeys
      in inlineSubObjects h entity (keys (props entity)) requestData)"

text \<open>
  The definitions above read the heap and give the payload. A call of \<^verbatim>\<open>toJSON()\<close> also
  writes: \<open>toJSONEffect\<close> is what the call on the object at an address does to the heap.
  \<open>buildRequestDataAt\<close> is \<^verbatim>\<open>buildRequestData\<close> on the entity at an address together with
  these writes, as \<^verbatim>\<open>method\<close> runs it: the keys and the picked properties are taken before
  the loop, and the loop reads \<^verbatim>\<open>entity[key]\<close> from the heap as the calls before have left
  it. It returns the heap with the writes up to the end of the loop, or up to the call
  that throws.
\<close>

definition toJSONEffect :: "heap \<Rightarrow> addr \<Rightarrow> heap" where
  "toJSONEffect h a =
     (case json (deref h a) of
        Some j \<Rightarrow> setProps h a (if jsonSelf (deref h a) then j else jsonLeaves (deref h a))
      | None \<Rightarrow> h)"

fun inlineSubObjectsAt :: "addr \<Rightarrow> string list \<Rightarrow> props \<Rightarrow> heap \<Rightarrow> (string + props) \<times> heap" where
  "inlineSubObjectsAt a [] requestData h = (Inr requestData, h)"
| "inlineSubObjectsAt a (key # ks) requestData h =
     (if canReadSubRequestData (deref h a) key then
        (case getProp (props (deref h a)) key of
           JRef r \<Rightarrow>
             (case json (deref h r) of
                Some j \<Rightarrow> inlineSubObjectsAt a ks (extend_js requestData j) (toJSONEffect h r)
              | None \<Rightarrow> (Inl ''TypeError'', h))
         | _ \<Rightarrow> (Inl ''TypeError'', h))
      else inlineSubObjectsAt a ks requestData h)"

definition buildRequestDataAt :: "heap \<Rightarrow> addr \<Rightarrow> (string + props) \<times> heap" where
  "buildRequestDataAt h a =
     (let entity = deref h a;
          blackList = readOnly entity;
          requestDataKeys = difference (keys (props entity)) blackList;
          requestData = pick (props entity) requestDataKeys
      in inlineSubObjectsAt a (keys (props entity)) requestData h)"

text \<open>
  The pairs of a model class and a property name for which the spec lets a nested object
  be flattened into the payload, and the properties that these nested objects serialise
  to. The list starts with the nested object that comes last among the entity's keys, so
  that a lookup in it finds the value that was written last.
\<close>

definition designated :: "(model \<times> string) list" where
  "designated = [(PayIn, ''PaymentDetails''), (PayIn, ''ExecutionDetails''),
     (PayOut, ''MeanOfPaymentDetails''), (BankAccount, ''Details'')]"

definition isDesignated :: "obj \<Rightarrow> string \<Rightarrow> bool" where
  "isDesignated entity k = (case cls entity of None \<Rightarrow> False | Some c \<Rightarrow> (c, k) \<in> set designated)"

definition subObjectProps :: "heap \<Rightarrow> obj \<Rightarrow> props" where
  "subObjectProps h entity =
     concat (map (\<lambda>k. case callToJSON h (getProp (props entity) k) of Inr j \<Rightarrow> j | Inl _ \<Rightarrow> [])
                 (rev (filter (isDesignated entity) (keys (props entity)))))"

section \<open>The dispatcher\<close>

subsection \<open>Requests, responses and the state of the \<^verbatim>\<open>Api\<close> object\<close>

text \<open>
  The \<^verbatim>\<open>response\<close> object that the HTTP client passes to a callback: its status, its
  headers as a list of names and values (\<open>map_of\<close> looks a name up), and \<open>body\<close>, the
  property that \<^verbatim>\<open>_.extend(response, {body: data})\<close> adds.
\<close>

record response =
  statusCode :: int
  responseHeaders :: "(string \<times> string) list option"
  body :: "jsval option"

text \<open>
  What the network answers to one request: the decoded body and the response, or an
  \<^verbatim>\<open>'error'\<close> event with its message. The number is the time in milliseconds that passes
  until the answer arrives.
\<close>

datatype net_event = Reply nat jsval response | NetError nat string

text \<open>
  The per-call options (\<^verbatim>\<open>options\<close> and \<^verbatim>\<open>requestOptions\<close> in the source). \<open>data\<close> and
  \<open>headers\<close> are references to objects of the heap or absent; \<open>dataClass\<close> names the
  model class to instantiate.
\<close>

record options =
  data :: "addr option"
  headers :: "addr option"
  url :: "string option"
  dataClass :: "string option"
  resolveWithFullResponse :: bool

definition noOptions :: options where
  "noOptions = \<lparr>data = None, headers = None, url = None, dataClass = None,
     resolveWithFullResponse = False\<rparr>"

text \<open>\<^verbatim>\<open>new dataClass(item)\<close>: the instance of the named class built from a payload.\<close>

datatype inst = New string jsval

text \<open>The value a promise settles with, or that a callback receives as first argument.\<close>

datatype rvalue =
    Raw jsval
  | Full response
  | Model inst
  | Models "inst list"
  | Error string

text \<open>
  How a call ends: its promise is resolved or rejected; or \<^verbatim>\<open>method\<close> throws before it
  returns a promise; or an exception escapes from the callback of a request, so that the
  promise is never settled; or no answer comes, and the promise stays pending.
\<close>

datatype outcome =
    Resolved rvalue
  | Rejected rvalue
  | Thrown string
  | Uncaught string
  | Pending

text \<open>
  What a call does that can be observed from outside, in order: the requests that go
  out, and the calls of the caller's callback, of the configured error handler and of the
  debug logger.
\<close>

datatype event =
    Log string
  | AuthRequest
  | Request string props "addr option"
  | Callback rvalue response
  | AuthCallback jsval
  | ErrorHandler jsval jsval

text \<open>
  The \<^verbatim>\<open>Api\<close> object together with its surroundings: the heap of shared objects, the
  address of \<^verbatim>\<open>this.requestOptions.headers\<close>, the token's expiry, the rate-limit
  snapshot, the names registered from \<^verbatim>\<open>apiMethods\<close>, the clock, the answers the network
  will give to the coming requests, and the trace of events so far. The clock moves while
  a request waits for its answer; no time passes between the steps of the dispatcher
  itself.
\<close>

record api =
  heap :: heap
  defaultHeaders :: addr
  authorizationExpireTime :: jsval
  rateLimits :: "rate_limit list"
  registered :: "string list"
  debugMode :: bool
  clock :: int
  script :: "net_event list"
  trace :: "event list"

definition emit :: "event \<Rightarrow> api \<Rightarrow> api" where
  "emit e s = s\<lparr>trace := trace s @ [e]\<rparr>"

text \<open>The caller's second argument: a function, an options object, or nothing.\<close>

datatype callback = CbFunction | CbObject options | CbAbsent

definition isFunction :: "callback \<Rightarrow> bool" where
  "isFunction cb = (cb = CbFunction)"

text \<open>\<^verbatim>\<open>_getOptions(callback, options)\<close>, as \<^verbatim>\<open>method\<close> calls it (without \<^verbatim>\<open>params\<close>).\<close>

definition getOptions :: "callback \<Rightarrow> options option \<Rightarrow> options" where
  "getOptions cb opts =
     (case opts of
        Some o1 \<Rightarrow> o1
      | None \<Rightarrow> (case cb of CbObject o2 \<Rightarrow> o2 | _ \<Rightarrow> noOptions))"

text \<open>
  The state that the constructor leaves: the default headers hold \<^verbatim>\<open>Content-Type\<close> and
  \<^verbatim>\<open>User-Agent\<close>, no token has been fetched, and the rate-limit list is empty. The
  registered names (\<^verbatim>\<open>apiMethods\<close>), the package version and the debug flag come from
  other files of the package and are parameters.
\<close>

definition newApi :: "string list \<Rightarrow> string \<Rightarrow> bool \<Rightarrow> api" where
  "newApi methods version dbg =
     \<lparr>heap = [plainObj [(''Content-Type'', JStr ''application/json''),
                        (''User-Agent'', JStr (''MangoPay V2 SDK Nodejs '' @ version))]],
      defaultHeaders = 0,
      authorizationExpireTime = JUndefined,
      rateLimits = [],
      registered = methods,
      debugMode = dbg,
      clock = 0,
      script = [],
      trace = []\<rparr>"

subsection \<open>\<^verbatim>\<open>authorize\<close> and \<^verbatim>\<open>isExpired\<close>\<close>

text \<open>
  The body of the callback that \<^verbatim>\<open>authorize\<close> hands to \<^verbatim>\<open>authentication_oauth\<close>, run
  on the decoded token payload. Reading a property of \<^verbatim>\<open>null\<close> or \<^verbatim>\<open>undefined\<close> throws inside
  that callback. The token endpoint is an entry of \<^verbatim>\<open>apiMethods\<close>; \<^verbatim>\<open>authorize\<close> does not
  look at \<open>registered\<close>.
\<close>

definition onToken :: "bool \<Rightarrow> jsval \<Rightarrow> api \<Rightarrow> outcome \<times> api" where
  "onToken cb tok s =
     (case readProp (heap s) tok ''token_type'' of
        Inl e \<Rightarrow> (Uncaught e, s)
      | Inr token_type \<Rightarrow>
          if \<not> truthy token_type then (Rejected (Raw tok), s)
          else
            (case readProp (heap s) tok ''access_token'' of
               Inl e \<Rightarrow> (Uncaught e, s)
             | Inr access_token \<Rightarrow>
                 if \<not> truthy access_token then (Rejected (Raw tok), s)
                 else
                   (case readProp (heap s) tok ''expires_in'' of
                      Inl e \<Rightarrow> (Uncaught e, s)
                    | Inr expires_in \<Rightarrow>
                        let dh = defaultHeaders s;
                            auth = JStr (toStr token_type @ '' '' @ toStr access_token);
                            s1 = s\<lparr>heap := setProps (heap s) dh
                                    (extend_js (props (deref (heap s) dh)) [(''Authorization'', auth)]),
                                  authorizationExpireTime :=
                                    JNum (num_add (Num (clock s))
                                      (num_mul (toNumber expires_in) (Num 1000)))\<rparr>
                        in (Resolved (Raw tok), if cb then emit (AuthCallback tok) s1 else s1))))"

definition authorize :: "bool \<Rightarrow> api \<Rightarrow> outcome \<times> api" where
  "authorize cb s =
     (case script s of
        [] \<Rightarrow> (Pending, emit AuthRequest s)
      | NetError d msg # rest \<Rightarrow>
          (Rejected (Raw (JStr msg)), (emit AuthRequest s)\<lparr>script := rest, clock := clock s + int d\<rparr>)
      | Reply d tok resp # rest \<Rightarrow>
          onToken cb tok ((emit AuthRequest s)\<lparr>script := rest, clock := clock s + int d\<rparr>))"

definition isExpired :: "api \<Rightarrow> bool" where
  "isExpired s =
     (let THRESHOLD = Num 60000
      in num_gt (Num (clock s)) (num_sub (toNumber (authorizationExpireTime s)) THRESHOLD))"

subsection \<open>\<^verbatim>\<open>method\<close> and \<^verbatim>\<open>_requestApi\<close>\<close>

text \<open>
  The first steps of \<^verbatim>\<open>method\<close>: the debug log, and the assignment to \<^verbatim>\<open>options.data\<close>
  when it is an entity or has a \<^verbatim>\<open>toJSON\<close> method. For an entity it is the new object that
  \<^verbatim>\<open>buildRequestData\<close> returns. Otherwise it is whatever \<^verbatim>\<open>toJSON()\<close> returns: a new object,
  or the receiver itself, which then stays \<^verbatim>\<open>options.data\<close> with the properties the method
  left it with. A TypeError of \<^verbatim>\<open>buildRequestData\<close> leaves \<^verbatim>\<open>method\<close> as an exception,
  after the writes of the \<^verbatim>\<open>toJSON()\<close> calls before it.
\<close>

definition logCall :: "string \<Rightarrow> api \<Rightarrow> api" where
  "logCall m s = (if debugMode s then emit (Log m) s else s)"

definition convertData :: "options \<Rightarrow> api \<Rightarrow> (string \<times> api) + (options \<times> api)" where
  "convertData opts s =
     (case data opts of
        None \<Rightarrow> Inr (opts, s)
      | Some a \<Rightarrow>
          if cls (deref (heap s) a) \<noteq> None then
            (case buildRequestDataAt (heap s) a of
               (Inl e, h1) \<Rightarrow> Inl (e, s\<lparr>heap := h1\<rparr>)
             | (Inr requestData, h1) \<Rightarrow>
                 (case alloc h1 (plainObj requestData) of
                    (a', h') \<Rightarrow> Inr (opts\<lparr>data := Some a'\<rparr>, s\<lparr>heap := h'\<rparr>)))
          else
            (case json (deref (heap s) a) of
               Some j \<Rightarrow>
                 if jsonSelf (deref (heap s) a) then
                   Inr (opts, s\<lparr>heap := toJSONEffect (heap s) a\<rparr>)
                 else
                   (case alloc (toJSONEffect (heap s) a) (plainObj j) of
                      (a', h') \<Rightarrow> Inr (opts\<lparr>data := Some a'\<rparr>, s\<lparr>heap := h'\<rparr>))
             | None \<Rightarrow> Inr (opts, s)))"

text \<open>\<^verbatim>\<open>!this.requestOptions.headers.Authorization || this.isExpired()\<close>.\<close>

definition needsAuthorization :: "api \<Rightarrow> bool" where
  "needsAuthorization s =
     (\<not> truthy (getProp (props (deref (heap s) (defaultHeaders s))) ''Authorization'') \<or> isExpired s)"

text \<open>
  The request options of a call: \<^verbatim>\<open>_.extend({}, this.requestOptions, options)\<close>, and then
  the merge of the headers. The first step is shallow: \<^verbatim>\<open>requestOptions.headers\<close> is the
  caller's headers object when there is one, and the shared default object otherwise. The
  second step, \<^verbatim>\<open>_.extend(requestOptions.headers, this.requestOptions.headers,
  options.headers)\<close>, therefore writes into the caller's object: first the defaults, then the
  object onto itself. (The merge of \<^verbatim>\<open>path\<close>, which works the same way and only decides
  the URL, is left out.)
\<close>

definition buildRequestOptions :: "options \<Rightarrow> api \<Rightarrow> options \<times> api" where
  "buildRequestOptions opts s =
     (case headers opts of
        None \<Rightarrow> (opts\<lparr>headers := Some (defaultHeaders s)\<rparr>, s)
      | Some a \<Rightarrow>
          if getProp (props (deref (heap s) a)) ''Content-Type'' = JUndefined then
            (let h1 = setProps (heap s) a
                        (extend_js (props (deref (heap s) a))
                                   (props (deref (heap s) (defaultHeaders s))));
                 h2 = setProps h1 a (extend_js (props (deref h1 a)) (props (deref h1 a)))
             in (opts, s\<lparr>heap := h2\<rparr>))
          else (opts, s))"

text \<open>The manual verbs, and the two checks that \<^verbatim>\<open>_requestApi\<close> makes before it sends.\<close>

definition manualVerbs :: "string list" where
  "manualVerbs = [''post'', ''get'', ''put'']"

definition precheck :: "options \<Rightarrow> string \<Rightarrow> api \<Rightarrow> string option" where
  "precheck requestOptions m s =
     (if m = [] then Some ''Method is required in order to perform a API server request''
      else if m \<notin> set manualVerbs then
        (if m \<in> set (registered s) then None else Some ''TypeError'')
      else if url requestOptions = None \<or> url requestOptions = Some [] then
        Some ''Url must be specified when doing a manual request''
      else None)"

definition requestEvent :: "options \<Rightarrow> string \<Rightarrow> api \<Rightarrow> event" where
  "requestEvent requestOptions m s =
     Request m (case headers requestOptions of None \<Rightarrow> [] | Some a \<Rightarrow> props (deref (heap s) a))
       (data requestOptions)"

text \<open>\<^verbatim>\<open>resolveWithFullResponse ? _.extend(response, {body: data}) : data\<close>, and the response
  object as it is afterwards.\<close>

definition resolveArg :: "options \<Rightarrow> jsval \<Rightarrow> response \<Rightarrow> rvalue \<times> response" where
  "resolveArg requestOptions payload resp =
     (if resolveWithFullResponse requestOptions
      then (Full (resp\<lparr>body := Some payload\<rparr>), resp\<lparr>body := Some payload\<rparr>)
      else (Raw payload, resp))"

definition callBack :: "callback \<Rightarrow> rvalue \<Rightarrow> response \<Rightarrow> api \<Rightarrow> api" where
  "callBack cb v resp s = (if isFunction cb then emit (Callback v resp) s else s)"

text \<open>The branch of the response callback for a status outside 200..299 other than 401.\<close>

definition handleFailure :: "options \<Rightarrow> callback \<Rightarrow> jsval \<Rightarrow> response \<Rightarrow> api \<Rightarrow> outcome \<times> api" where
  "handleFailure requestOptions cb payload resp s =
     (case resolveArg requestOptions payload resp of
        (resolveArgument, resp') \<Rightarrow>
          (let s1 = callBack cb resolveArgument resp' s in
           case readProp (heap s1) payload ''Message'' of
             Inl e \<Rightarrow> (Uncaught e, s1)
           | Inr msg \<Rightarrow> (Rejected resolveArgument, emit (ErrorHandler msg payload) s1)))"

text \<open>\<^verbatim>\<open>_.extend(requestOptions.data, data, {data: data})\<close>; nothing happens without a target.\<close>

definition extendData :: "heap \<Rightarrow> addr option \<Rightarrow> jsval \<Rightarrow> heap" where
  "extendData h target payload =
     (case target of
        None \<Rightarrow> h
      | Some a \<Rightarrow>
          setProps h a
            (extend_js (extend_js (props (deref h a)) (allKeys payload)) [(''data'', payload)]))"

text \<open>The branch of the response callback for a status in 200..299.\<close>

definition handleSuccess ::
    "options \<Rightarrow> string \<Rightarrow> callback \<Rightarrow> jsval \<Rightarrow> response \<Rightarrow> api \<Rightarrow> outcome \<times> api" where
  "handleSuccess requestOptions m cb payload resp s =
     (case resolveArg requestOptions payload resp of
        (resolveArgument0, resp') \<Rightarrow>
          (let s1 = s\<lparr>rateLimits :=
                         setRateLimits (rateLimits s) (map_option map_of (responseHeaders resp))\<rparr>;
               s2 = (if m \<notin> set manualVerbs
                     then s1\<lparr>heap := extendData (heap s1) (data requestOptions) payload\<rparr>
                     else s1);
               resolveArgument =
                 (if m \<notin> set manualVerbs then
                    (case dataClass requestOptions of
                       None \<Rightarrow> resolveArgument0
                     | Some c \<Rightarrow>
                         if \<not> resolveWithFullResponse requestOptions then
                           (case payload of
                              JArr items \<Rightarrow> Models (map (New c) items)
                            | _ \<Rightarrow> Model (New c payload))
                         else resolveArgument0)
                  else resolveArgument0)
           in (Resolved resolveArgument, callBack cb resolveArgument resp' s2)))"

text \<open>Sending a request takes the next answer of the network and lets its time pass.\<close>

definition sent :: "options \<Rightarrow> string \<Rightarrow> nat \<Rightarrow> api \<Rightarrow> api" where
  "sent requestOptions m d s =
     (emit (requestEvent requestOptions m s) s)\<lparr>script := tl (script s), clock := clock s + int d\<rparr>"

lemma onToken_script: "script (snd (onToken cb tok s)) = script s"
  by (simp add: onToken_def emit_def Let_def split: sum.splits)

lemma authorize_script:
  assumes "authorize cb s = (Resolved v, s')"
  shows "Suc (length (script s')) = length (script s)"
proof (cases "script s")
  case Nil
  with assms show ?thesis by (simp add: authorize_def)
next
  case (Cons ev rest)
  show ?thesis
  proof (cases ev)
    case (NetError d msg)
    with Cons assms show ?thesis by (simp add: authorize_def)
  next
    case (Reply d tok resp)
    with Cons assms have "s' = snd (onToken cb tok ((emit AuthRequest s)\<lparr>script := rest, clock := clock s + int d\<rparr>))"
      by (simp add: authorize_def)
    then have "script s' = rest" by (simp add: onToken_script)
    with Cons show ?thesis by simp
  qed
qed

lemma logCall_script: "script (logCall m s) = script s"
  by (simp add: logCall_def emit_def)

lemma convertData_script: "convertData opts s = Inr (opts', s') \<Longrightarrow> script s' = script s"
  by (auto simp: convertData_def alloc_def split: option.splits sum.splits prod.splits if_splits)

lemma buildRequestOptions_script: "script (snd (buildRequestOptions opts s)) = script s"
  by (simp add: buildRequestOptions_def Let_def split: option.splits)

text \<open>
  \<^verbatim>\<open>method(method, callback, options)\<close>, here \<open>method_js\<close>, and
  \<^verbatim>\<open>_requestApi(requestOptions, method, callback)\<close>. Both recursive calls of \<^verbatim>\<open>method\<close> in
  the source pass a wrapper that calls the caller's callback with the arguments it would
  have received, when that callback is a function; the model passes the caller's callback
  on. Both stand in a \<^verbatim>\<open>then\<close> whose promise ends in \<^verbatim>\<open>.catch(reject)\<close>, so an exception
  that the inner call throws rejects the outer promise (\<open>settle\<close>). Every recursive call
  comes after an answer of the network has been taken, which is why the recursion ends on
  a finite script; when the script is used up the promise stays pending.
\<close>

definition settle :: "outcome \<times> api \<Rightarrow> outcome \<times> api" where
  "settle x = (case x of (Thrown e, s) \<Rightarrow> (Rejected (Error e), s) | _ \<Rightarrow> x)"

function method_js :: "string \<Rightarrow> callback \<Rightarrow> options option \<Rightarrow> api \<Rightarrow> outcome \<times> api"
  and requestApi :: "options \<Rightarrow> string \<Rightarrow> callback \<Rightarrow> api \<Rightarrow> outcome \<times> api"
where
  "method_js m cb options s =
     (case convertData (getOptions cb options) (logCall m s) of
        Inl (e, s1) \<Rightarrow> (Thrown e, s1)
      | Inr (opts, s1) \<Rightarrow>
          if needsAuthorization s1 then
            (case authorize False s1 of
               (Resolved tok, s2) \<Rightarrow> settle (method_js m cb (Some opts) s2)
             | (r, s2) \<Rightarrow> (r, s2))
          else
            (case buildRequestOptions opts s1 of
               (requestOptions, s2) \<Rightarrow> requestApi requestOptions m cb s2))"
| "requestApi requestOptions m cb s =
     (case precheck requestOptions m s of
        Some e \<Rightarrow> (Rejected (Error e), s)
      | None \<Rightarrow>
          (case script s of
             [] \<Rightarrow> (Pending, emit (requestEvent requestOptions m s) s)
           | NetError d msg # rest \<Rightarrow> (Rejected (Raw (JStr msg)), sent requestOptions m d s)
           | Reply d payload resp # rest \<Rightarrow>
               if statusCode resp = 401 then
                 (case authorize False (sent requestOptions m d s) of
                    (Resolved tok, s2) \<Rightarrow> settle (method_js m cb (Some requestOptions) s2)
                  | (r, s2) \<Rightarrow> (r, s2))
               else if statusCode resp < 200 \<or> statusCode resp > 299 then
                 handleFailure requestOptions cb payload resp (sent requestOptions m d s)
               else
                 handleSuccess requestOptions m cb payload resp (sent requestOptions m d s)))"
  by pat_completeness auto
termination
proof (relation "measure (\<lambda>x. case x of
          Inl (m, cb, options, s) \<Rightarrow> 2 * length (script s) + 1
        | Inr (requestOptions, m, cb, s) \<Rightarrow> 2 * length (script s))", goal_cases)
  case 1
  show ?case by simp
next
  case (2 m cb options s b x y xa ya x1)
  from 2(1,2) have "script y = script (logCall m s)"
    using convertData_script [of "getOptions cb options" "logCall m s" x y] by simp
  moreover from 2(4,5) have "Suc (length (script ya)) = length (script y)"
    using authorize_script [of False y x1 ya] by simp
  ultimately show ?case by (simp add: logCall_script)
next
  case (3 m cb options s b x y xa ya)
  from 3(1,2) have "script y = script (logCall m s)"
    using convertData_script [of "getOptions cb options" "logCall m s" x y] by simp
  moreover from 3(4) have "script ya = script y"
    using buildRequestOptions_script [of x y] by (metis snd_conv)
  ultimately show ?case by (simp add: logCall_script)
next
  case (4 requestOptions m cb s x21 x22 x11 x12 x13 x y x1)
  from 4(5,6) have "Suc (length (script y)) = length (script (sent requestOptions m x11 s))"
    using authorize_script [of False "sent requestOptions m x11 s" x1 y] by simp
  with 4(2) show ?case by (simp add: sent_def emit_def)
qed

declare method_js.simps [simp del] requestApi.simps [simp del]

section \<open>Counting what a call does\<close>














section \<open>Values for the examples\<close>

text \<open>A pay-in with card payment details, with the details at address 0 of the heap.\<close>

definition cardDetails :: obj where
  "cardDetails = \<lparr>props = [(''CardId'', JStr ''c1''), (''Id'', JStr ''d9'')], cls = None, readOnly = [],
     json = Some [(''CardId'', JStr ''c1''), (''Id'', JStr ''d9'')], jsonSelf = True,
     jsonLeaves = []\<rparr>"

definition cardPayIn :: obj where
  "cardPayIn = \<lparr>props = [(''Id'', JStr ''p1''), (''Tag'', JStr ''t''), (''PaymentDetails'', JRef 0)],
     cls = Some PayIn, readOnly = [''Id''], json = None, jsonSelf = False, jsonLeaves = []\<rparr>"

definition tokenPayload :: jsval where
  "tokenPayload = JObj [(''token_type'', JStr ''bearer''), (''access_token'', JStr ''abc''),
     (''expires_in'', JNum (Num 3600))]"

definition emptyTypePayload :: jsval where
  "emptyTypePayload = JObj [(''token_type'', JStr []), (''access_token'', JStr ''abc''),
     (''expires_in'', JNum (Num 3600))]"

definition okResponse :: response where
  "okResponse = \<lparr>statusCode = 200, responseHeaders = Some [], body = None\<rparr>"

definition freshApi :: api where
  "freshApi = newApi [''authentication_oauth'', ''users_get''] ''1.0'' False"

text \<open>
  An api object that holds a token. Its heap has the default headers at address 0, two
  headers objects of a caller at 1 and 2, a plain object at 3, an entity at 4, and at 5 an
  object whose \<^verbatim>\<open>toJSON\<close> returns the object itself.
\<close>

definition authorizedApi :: api where
  "authorizedApi =
     \<lparr>heap = [plainObj [(''Content-Type'', JStr ''application/json''),
                        (''User-Agent'', JStr ''MangoPay V2 SDK Nodejs 1.0''),
                        (''Authorization'', JStr ''bearer abc'')],
              plainObj [(''Content-Type'', JStr ''text/plain'')],
              plainObj [(''Idempotency-Key'', JStr ''k1''), (''Authorization'', JStr ''mine'')],
              plainObj [(''FirstName'', JStr ''Ada'')],
              \<lparr>props = [(''FirstName'', JStr ''Ada''), (''Id'', JNull)], cls = Some OtherEntity,
                readOnly = [''Id''], json = None, jsonSelf = False, jsonLeaves = []\<rparr>,
              \<lparr>props = [(''Amount'', JStr ''12'')], cls = None, readOnly = [],
                json = Some [(''Amount'', JNum (Num 12))], jsonSelf = True, jsonLeaves = []\<rparr>],
      defaultHeaders = 0,
      authorizationExpireTime = JNum (Num 3600000),
      rateLimits = [],
      registered = [''authentication_oauth'', ''users_get'', ''users_all'', ''users_create''],
      debugMode = False,
      clock = 1000,
      script = [],
      trace = []\<rparr>"

definition userPayload :: jsval where
  "userPayload = JObj [(''Id'', JStr ''7''), (''FirstName'', JStr ''Ada'')]"

definition errorPayload :: jsval where
  "errorPayload = JObj [(''Message'', JStr ''bad request''), (''Type'', JStr ''param_error'')]"

definition statusResponse :: "int \<Rightarrow> response" where
  "statusResponse c = \<lparr>statusCode = c, responseHeaders = Some [], body = None\<rparr>"

definition userList :: jsval where
  "userList = JArr [JObj [(''Id'', JStr ''7'')], JObj [(''Id'', JStr ''8'')]]"




section \<open>Properties\<close>

subsection \<open>The rate-limit snapshot\<close>

lemma split_js_nonempty: "split_js sep acc s \<noteq> []"
  by (induction sep acc s rule: split_js.induct) auto

lemma split_nonempty: "split s sep \<noteq> []"
  by (simp add: split_def split_js_nonempty)

lemma shape_cases:
  obtains "r = []" | a where "r = [a]" | a b where "r = [a, b]" | a b c where "r = [a, b, c]"
  | a b c d rest where "r = a # b # c # d # rest"
  by (metis list.exhaust)

text \<open>On a list with at least four entries no assignment throws, and each window is
  updated from its own cells.\<close>

lemma headerBlock_full:
  "headerBlock h name upd (a # b # c # d # rest) =
     (case h name of None \<Rightarrow> (a # b # c # d # rest, True)
      | Some s \<Rightarrow> (upd (at_js (cells s) 0) a # upd (at_js (cells s) 1) b #
                    upd (at_js (cells s) 2) c # upd (at_js (cells s) 3) d # rest, True))"
  by (simp add: headerBlock_def split_nonempty split: option.splits)

lemma setRateLimits_full:
  "setRateLimits (a # b # c # d # rest) hs =
     updWindow 0 hs a # updWindow 1 hs b # updWindow 2 hs c # updWindow 3 hs d # rest"
  by (simp add: setRateLimits_def headerBlock_full updWindow_def split: option.splits)

lemma setRateLimits_empty: "setRateLimits [] hs = setRateLimits initialRateLimits hs"
  by (simp add: setRateLimits_def initialRateLimits_def)

lemma updWindow_idem: "updWindow i hs (updWindow i hs e) = updWindow i hs e"
  by (simp add: updWindow_def split: option.splits)

text \<open>On a shorter list the first header that is present throws at the first missing
  entry, the same way in both runs.\<close>

lemma setRateLimits_idem_short:
  assumes "r \<noteq> []" "length r < 4"
  shows "setRateLimits (setRateLimits r hs) hs = setRateLimits r hs"
  using assms
  by (cases r rule: shape_cases)
     (auto simp add: setRateLimits_def headerBlock_def split_nonempty split: option.splits)

lemma setRateLimits_idem_nonempty:
  assumes "r \<noteq> []"
  shows "setRateLimits (setRateLimits r hs) hs = setRateLimits r hs"
proof (cases "length r < 4")
  case True
  with assms show ?thesis by (rule setRateLimits_idem_short)
next
  case False
  then obtain a b c d rest where "r = a # b # c # d # rest"
    by (cases r rule: shape_cases) auto
  then show ?thesis by (simp add: setRateLimits_full updWindow_idem)
qed

text \<open>
  C8. Applying \<^verbatim>\<open>setRateLimits\<close> twice with the same headers leaves the same snapshot as
  applying it once, from every list of entries and for every header set (also an absent
  one).
\<close>

theorem setRateLimits_idempotent:
  "setRateLimits (setRateLimits rls hdrs) hdrs = setRateLimits rls hdrs"
proof (cases "rls = []")
  case True
  have "initialRateLimits \<noteq> []" by (simp add: initialRateLimits_def)
  then show ?thesis using True by (simp add: setRateLimits_empty setRateLimits_idem_nonempty)
next
  case False
  then show ?thesis by (rule setRateLimits_idem_nonempty)
qed

lemma setRateLimits_four:
  assumes "length r = 4" "i < 4"
  shows "length (setRateLimits r x) = 4 \<and> setRateLimits r x ! i = updWindow i x (r ! i)"
proof -
  from assms(1) obtain a b c d where r: "r = [a, b, c, d]"
    by (cases r rule: shape_cases) auto
  from assms(2) consider "i = 0" | "i = 1" | "i = 2" | "i = 3" by linarith
  then show ?thesis by cases (simp_all add: r setRateLimits_full)
qed

lemma foldl_setRateLimits_four:
  assumes "length r = 4" "i < 4"
  shows "length (foldl setRateLimits r hs) = 4 \<and>
         foldl setRateLimits r hs ! i = foldl (\<lambda>e x. updWindow i x e) (r ! i) hs"
  using assms(1)
proof (induction hs arbitrary: r)
  case Nil
  then show ?case by simp
next
  case (Cons x hs)
  from setRateLimits_four [OF Cons.prems assms(2), of x]
  have l: "length (setRateLimits r x) = 4" and e: "setRateLimits r x ! i = updWindow i x (r ! i)"
    by simp_all
  from Cons.IH [OF l] show ?case by (simp add: e)
qed

lemma snapshotAfter_window:
  assumes "i < 4"
  shows "length (snapshotAfter (h # hs)) = 4 \<and>
         snapshotAfter (h # hs) ! i = foldl (\<lambda>e x. updWindow i x e) (initialRateLimits ! i) (h # hs)"
proof -
  have l: "length initialRateLimits = 4" by (simp add: initialRateLimits_def)
  have "snapshotAfter (h # hs) = foldl setRateLimits initialRateLimits (h # hs)"
    by (simp add: snapshotAfter_def setRateLimits_empty)
  with foldl_setRateLimits_four [OF l assms, of "h # hs"] show ?thesis by simp
qed

lemma updWindow_nonneg:
  assumes "i < 4" "cellsNonneg x" "entry_nonneg e"
  shows "entry_nonneg (updWindow i x e)"
proof -
  from assms(1) consider "i = 0" | "i = 1" | "i = 2" | "i = 3" by linarith
  then show ?thesis using assms(2,3)
    by cases (auto simp: updWindow_def cellsNonneg_def rateLimitHeaderNames_def entry_nonneg_def
                split: option.splits)
qed

lemma foldl_updWindow_nonneg:
  "i < 4 \<Longrightarrow> list_all cellsNonneg hs \<Longrightarrow> entry_nonneg e \<Longrightarrow>
     entry_nonneg (foldl (\<lambda>e x. updWindow i x e) e hs)"
  by (induction hs arbitrary: e) (auto simp: updWindow_nonneg)

lemma initial_nonneg:
  assumes "i < 4"
  shows "entry_nonneg (initialRateLimits ! i)"
proof -
  from assms consider "i = 0" | "i = 1" | "i = 2" | "i = 3" by linarith
  then show ?thesis
    by cases (simp_all add: initialRateLimits_def entry_nonneg_def nonneg_def)
qed

text \<open>
  C4, as the code has it. After one or more responses the snapshot has its four entries,
  and window \<open>i\<close> holds what the per-window update \<open>updWindow i\<close> makes of the headers, one
  response after the other, from the initial entry of that window: no cell of another
  window and no entry of another window enters. Each counter is \<^verbatim>\<open>Number\<close> of the cell the
  last header gave it, so it is non-negative when the responses only carry non-negative
  cells; nothing in \<^verbatim>\<open>setRateLimits\<close> keeps a negative cell out.
\<close>

theorem rateLimits_per_window:
  assumes "i < 4"
  shows "length (snapshotAfter (h # hs)) = 4 \<and>
         snapshotAfter (h # hs) ! i =
           foldl (\<lambda>e x. updWindow i x e) (initialRateLimits ! i) (h # hs) \<and>
         (list_all cellsNonneg (h # hs) \<longrightarrow> entry_nonneg (snapshotAfter (h # hs) ! i))"
proof -
  note w = snapshotAfter_window [OF assms, of h hs]
  have "list_all cellsNonneg (h # hs) \<Longrightarrow> entry_nonneg (snapshotAfter (h # hs) ! i)"
    using foldl_updWindow_nonneg [OF assms _ initial_nonneg [OF assms], of "h # hs"] w by simp
  with w show ?thesis by blast
qed

theorem rateLimits_per_window_witness:
  "(0::nat) < 4 \<and>
   list_all cellsNonneg [Some [''x-ratelimit'' \<mapsto> ''5, 6, 7, 8''], None] \<and>
   snapshotAfter [Some [''x-ratelimit'' \<mapsto> ''5, 6, 7, 8''], None] ! 0 =
     \<lparr>minutesInterval = 15, callsMade = JNum (Num 5), callsRemaining = JNum (Num 0),
      resetTimeMillis = JNum (Num 0)\<rparr> \<and>
   entry_nonneg (snapshotAfter [Some [''x-ratelimit'' \<mapsto> ''5, 6, 7, 8''], None] ! 0)"
proof -
  have g: "list_all cellsNonneg [Some [''x-ratelimit'' \<mapsto> ''5, 6, 7, 8''], None]"
    by code_simp
  have v: "foldl (\<lambda>e x. updWindow 0 x e) (initialRateLimits ! 0)
             [Some [''x-ratelimit'' \<mapsto> ''5, 6, 7, 8''], None] =
           \<lparr>minutesInterval = 15, callsMade = JNum (Num 5), callsRemaining = JNum (Num 0),
            resetTimeMillis = JNum (Num 0)\<rparr>"
    by code_simp
  from rateLimits_per_window [of 0 "Some [''x-ratelimit'' \<mapsto> ''5, 6, 7, 8'']" "[None]"] g v
  show ?thesis by (simp add: entry_nonneg_def nonneg_def)
qed

text \<open>
  The claim as it is written fails: a response whose \<^verbatim>\<open>x-ratelimit-remaining\<close> header
  starts with \<^verbatim>\<open>-1\<close> leaves \<open>-1\<close> as the calls remaining of the first window.
\<close>

theorem rateLimits_negative_counterexample:
  "callsRemaining (snapshotAfter [Some [''x-ratelimit-remaining'' \<mapsto> ''-1, 0, 0, 0'']] ! 0) =
     JNum (Num (- 1)) \<and>
   \<not> entry_nonneg (snapshotAfter [Some [''x-ratelimit-remaining'' \<mapsto> ''-1, 0, 0, 0'']] ! 0)"
  by code_simp

subsection \<open>Property lists\<close>

lemma map_of_setProp: "map_of (setProp k v ps) = (map_of ps)(k \<mapsto> v)"
  by (induction ps) auto

lemma map_of_getProp: "k \<in> set (keys ps) \<Longrightarrow> map_of ps k = Some (getProp ps k)"
  by (auto simp: keys_def getProp_def map_of_eq_None_iff split: option.splits)

lemma map_of_not_key: "k \<notin> set (keys ps) \<Longrightarrow> map_of ps k = None"
  by (simp add: keys_def map_of_eq_None_iff)

lemma map_of_assign_keys:
  "map_of (foldl (\<lambda>d k. setProp k (getProp src k) d) dst ks) x =
     (if x \<in> set ks then Some (getProp src x) else map_of dst x)"
  by (induction ks arbitrary: dst) (auto simp: map_of_setProp)

lemma map_of_extend_js: "map_of (extend_js dst src) = map_of dst ++ map_of src"
proof
  fix x
  show "map_of (extend_js dst src) x = (map_of dst ++ map_of src) x"
    by (cases "x \<in> set (keys src)")
       (simp_all add: extend_js_def map_of_assign_keys map_add_def map_of_getProp map_of_not_key)
qed

lemma getProp_extend_js:
  "getProp (extend_js dst src) k = (if k \<in> set (keys src) then getProp src k else getProp dst k)"
proof (cases "map_of src k")
  case None
  then have "k \<notin> set (keys src)" by (simp add: keys_def map_of_eq_None_iff)
  with None show ?thesis by (simp add: getProp_def map_of_extend_js map_add_def)
next
  case (Some v)
  then have "k \<in> set (keys src)" by (force simp: keys_def dest: map_of_SomeD)
  with Some show ?thesis by (simp add: getProp_def map_of_extend_js map_add_def)
qed

lemma map_of_pick_aux:
  "map_of (foldl (\<lambda>r k. if k \<in> set (keys ps) then setProp k (getProp ps k) r else r) r0 ks) x =
     (if x \<in> set ks \<and> x \<in> set (keys ps) then map_of ps x else map_of r0 x)"
  by (induction ks arbitrary: r0) (auto simp: map_of_setProp map_of_getProp)

lemma map_of_pick: "map_of (pick ps ks) = map_of ps |` set ks"
proof
  fix x
  show "map_of (pick ps ks) x = (map_of ps |` set ks) x"
    by (auto simp: pick_def map_of_pick_aux restrict_map_def map_of_not_key)
qed

subsection \<open>\<^verbatim>\<open>buildRequestData\<close>\<close>

text \<open>The test of the code is the closed set of pairs.\<close>

lemma canReadSubRequestData_designated: "canReadSubRequestData entity k = isDesignated entity k"
  by (cases "cls entity") (auto simp: canReadSubRequestData_def isDesignated_def designated_def)

lemma inlineSubObjects_map:
  "inlineSubObjects h entity ks rd = Inr p \<Longrightarrow>
     map_of p = map_of rd ++
       map_of (concat (map (\<lambda>k. case callToJSON h (getProp (props entity) k) of
                                   Inr j \<Rightarrow> j | Inl _ \<Rightarrow> [])
                 (rev (filter (isDesignated entity) ks))))"
proof (induction ks arbitrary: rd)
  case Nil
  then show ?case by simp
next
  case (Cons k ks)
  show ?case
  proof (cases "isDesignated entity k")
    case False
    with Cons show ?thesis by (simp add: canReadSubRequestData_designated)
  next
    case True
    with Cons.prems obtain j where j: "callToJSON h (getProp (props entity) k) = Inr j"
      and r: "inlineSubObjects h entity ks (extend_js rd j) = Inr p"
      by (auto simp: canReadSubRequestData_designated split: sum.splits)
    from Cons.IH [OF r] show ?thesis
      by (simp add: True j map_of_extend_js)
  qed
qed

text \<open>
  C2, as the code has it. When \<^verbatim>\<open>buildRequestData\<close> returns, the payload is the
  entity's own properties without the read-only ones, overwritten by the serialised forms
  of its designated nested objects, the later one winning: the keys are exactly the own
  keys that are not read-only together with all keys of those serialised forms. A
  read-only name is therefore absent unless a nested object serialises to it.
\<close>

theorem buildRequestData_payload:
  assumes "buildRequestData h entity = Inr payload"
  shows "map_of payload =
           (map_of (props entity) |` (- set (readOnly entity))) ++ map_of (subObjectProps h entity) \<and>
         set (keys payload) =
           (set (keys (props entity)) - set (readOnly entity)) \<union> set (keys (subObjectProps h entity))"
proof -
  have "map_of (props entity) |` set (difference (keys (props entity)) (readOnly entity))
        = map_of (props entity) |` (- set (readOnly entity))"
    by (auto simp: restrict_map_def difference_def fun_eq_iff map_of_not_key)
  with inlineSubObjects_map [OF assms [unfolded buildRequestData_def Let_def]]
  have m: "map_of payload =
      (map_of (props entity) |` (- set (readOnly entity))) ++ map_of (subObjectProps h entity)"
    by (simp add: subObjectProps_def map_of_pick)
  have "set (keys payload) = dom (map_of payload)"
    by (simp add: keys_def dom_map_of_conv_image_fst)
  also have "\<dots> = (set (keys (props entity)) - set (readOnly entity)) \<union>
      set (keys (subObjectProps h entity))"
    by (auto simp: m keys_def dom_map_of_conv_image_fst)
  finally show ?thesis using m by simp
qed

lemma cardPayIn_payload:
  "buildRequestData [cardDetails] cardPayIn =
     Inr [(''Tag'', JStr ''t''), (''PaymentDetails'', JRef 0), (''CardId'', JStr ''c1''),
          (''Id'', JStr ''d9'')]"
  by code_simp

theorem buildRequestData_payload_witness:
  "buildRequestData [cardDetails] cardPayIn =
     Inr [(''Tag'', JStr ''t''), (''PaymentDetails'', JRef 0), (''CardId'', JStr ''c1''),
          (''Id'', JStr ''d9'')] \<and>
   {''Tag'', ''PaymentDetails'', ''CardId'', ''Id''} =
     (set (keys (props cardPayIn)) - set (readOnly cardPayIn)) \<union>
       set (keys (subObjectProps [cardDetails] cardPayIn))"
  using buildRequestData_payload [OF cardPayIn_payload] cardPayIn_payload
  by (simp add: keys_def)

text \<open>
  The claim as it is written fails: the pay-in below lists \<^verbatim>\<open>Id\<close> as read-only, its
  payment details serialise to an \<^verbatim>\<open>Id\<close> of their own, and the payload has that \<^verbatim>\<open>Id\<close>.
\<close>

theorem buildRequestData_readOnly_counterexample:
  "buildRequestData [cardDetails] cardPayIn =
     Inr [(''Tag'', JStr ''t''), (''PaymentDetails'', JRef 0), (''CardId'', JStr ''c1''),
          (''Id'', JStr ''d9'')] \<and>
   ''Id'' \<in> set (readOnly cardPayIn) \<and>
   ''Id'' \<in> set (keys [(''Tag'', JStr ''t''), (''PaymentDetails'', JRef 0), (''CardId'', JStr ''c1''),
          (''Id'', JStr ''d9'')])"
  by code_simp

subsection \<open>\<^verbatim>\<open>authorize\<close> and \<^verbatim>\<open>isExpired\<close>\<close>

lemma deref_setProps:
  "deref (setProps h a ps) b =
     (if b = a \<and> a < length h then (deref h a)\<lparr>props := ps\<rparr> else deref h b)"
  by (simp add: deref_def setProps_def)

lemma length_setProps: "length (setProps h a ps) = length h"
  by (simp add: setProps_def)

lemma getProp_Nil: "getProp [] k = JUndefined"
  by (simp add: getProp_def)

lemma getProp_Cons: "getProp ((k', v) # ps) k = (if k = k' then v else getProp ps k)"
  by (simp add: getProp_def)

lemma onToken_object:
  "onToken cb (JObj ps) s =
     (if truthy (getProp ps ''token_type'') \<and> truthy (getProp ps ''access_token'') then
        (Resolved (Raw (JObj ps)),
         (if cb then emit (AuthCallback (JObj ps)) else id)
           (s\<lparr>heap := setProps (heap s) (defaultHeaders s)
                   (extend_js (props (deref (heap s) (defaultHeaders s)))
                      [(''Authorization'',
                        JStr (toStr (getProp ps ''token_type'') @ '' '' @
                              toStr (getProp ps ''access_token'')))]),
               authorizationExpireTime :=
                 JNum (num_add (Num (clock s))
                        (num_mul (toNumber (getProp ps ''expires_in'')) (Num 1000)))\<rparr>))
      else (Rejected (Raw (JObj ps)), s))"
  by (simp add: onToken_def readProp_def Let_def)

text \<open>
  C6, as the code has it. On a token response that is an object, \<^verbatim>\<open>authorize\<close> resolves
  with the payload, stores \<^verbatim>\<open>token_type + ' ' + access_token\<close> as the default
  \<^verbatim>\<open>Authorization\<close> header and sets the expiry to the time of the answer plus
  \<^verbatim>\<open>expires_in * 1000\<close>, exactly when \<^verbatim>\<open>token_type\<close> and \<^verbatim>\<open>access_token\<close> are both truthy;
  otherwise it rejects with the payload and leaves headers and expiry as they were. On a
  network error it rejects with the message of the error.
\<close>

theorem authorize_token:
  "(script s = Reply d (JObj ps) resp # rest \<and> defaultHeaders s < length (heap s) \<longrightarrow>
      (case authorize cb s of
         (r, s') \<Rightarrow>
           if truthy (getProp ps ''token_type'') \<and> truthy (getProp ps ''access_token'') then
             r = Resolved (Raw (JObj ps)) \<and>
             getProp (props (deref (heap s') (defaultHeaders s'))) ''Authorization'' =
               JStr (toStr (getProp ps ''token_type'') @ '' '' @ toStr (getProp ps ''access_token'')) \<and>
             authorizationExpireTime s' =
               JNum (num_add (Num (clock s + int d))
                      (num_mul (toNumber (getProp ps ''expires_in'')) (Num 1000)))
           else
             r = Rejected (Raw (JObj ps)) \<and> heap s' = heap s \<and>
             authorizationExpireTime s' = authorizationExpireTime s)) \<and>
   (script s = NetError d msg # rest \<longrightarrow>
      (case authorize cb s of
         (r, s') \<Rightarrow>
           r = Rejected (Raw (JStr msg)) \<and> heap s' = heap s \<and>
           authorizationExpireTime s' = authorizationExpireTime s))"
  by (auto simp: authorize_def onToken_object emit_def deref_setProps getProp_extend_js keys_def
      getProp_Cons)

theorem authorize_token_witness:
  "(case authorize False (freshApi\<lparr>script := [Reply 7 tokenPayload okResponse]\<rparr>) of
      (r, s') \<Rightarrow>
        r = Resolved (Raw tokenPayload) \<and>
        getProp (props (deref (heap s') (defaultHeaders s'))) ''Authorization'' = JStr ''bearer abc'' \<and>
        authorizationExpireTime s' = JNum (Num 3600007)) \<and>
   (case authorize False (freshApi\<lparr>script := [NetError 7 ''ECONNRESET'']\<rparr>) of
      (r, s') \<Rightarrow> r = Rejected (Raw (JStr ''ECONNRESET'')))"
  using authorize_token [of "freshApi\<lparr>script := [Reply 7 tokenPayload okResponse]\<rparr>" 7
      "[(''token_type'', JStr ''bearer''), (''access_token'', JStr ''abc''),
        (''expires_in'', JNum (Num 3600))]" okResponse "[]" False]
    authorize_token [of "freshApi\<lparr>script := [NetError 7 ''ECONNRESET'']\<rparr>" 7 _ _ "[]" False
      "''ECONNRESET''"]
  by (simp add: freshApi_def newApi_def tokenPayload_def getProp_Cons split: prod.splits)

text \<open>
  The claim as it is written fails: a token response that contains both fields, with the
  empty string as \<^verbatim>\<open>token_type\<close>, is rejected.
\<close>

theorem authorize_empty_token_type_counterexample:
  "''token_type'' \<in> set (keys [(''token_type'', JStr []), (''access_token'', JStr ''abc''),
       (''expires_in'', JNum (Num 3600))]) \<and>
   ''access_token'' \<in> set (keys [(''token_type'', JStr []), (''access_token'', JStr ''abc''),
       (''expires_in'', JNum (Num 3600))]) \<and>
   fst (authorize False (freshApi\<lparr>script := [Reply 7 emptyTypePayload okResponse]\<rparr>)) =
     Rejected (Raw emptyTypePayload)"
  by code_simp

text \<open>
  C10. While \<^verbatim>\<open>authorizationExpireTime\<close> is \<^verbatim>\<open>undefined\<close>, \<^verbatim>\<open>isExpired()\<close> is false at
  every time: the comparison is against \<^verbatim>\<open>NaN\<close>. The test that \<^verbatim>\<open>method\<close> makes before a
  call is then the absence of a truthy default \<^verbatim>\<open>Authorization\<close> header and nothing else.
\<close>

theorem isExpired_undefined:
  assumes "authorizationExpireTime s = JUndefined"
  shows "\<not> isExpired s \<and>
         needsAuthorization s =
           (\<not> truthy (getProp (props (deref (heap s) (defaultHeaders s))) ''Authorization''))"
  using assms by (simp add: isExpired_def needsAuthorization_def)

theorem isExpired_undefined_witness:
  "authorizationExpireTime (freshApi\<lparr>clock := 1000000\<rparr>) = JUndefined \<and>
   \<not> isExpired (freshApi\<lparr>clock := 1000000\<rparr>) \<and>
   needsAuthorization (freshApi\<lparr>clock := 1000000\<rparr>)"
  using isExpired_undefined [of "freshApi\<lparr>clock := 1000000\<rparr>"]
  by (simp add: freshApi_def newApi_def deref_def plainObj_def getProp_Cons getProp_Nil)

subsection \<open>The headers of a request\<close>




subsection \<open>The response callback of \<^verbatim>\<open>_requestApi\<close>\<close>

lemma requestApi_reply:
  assumes "precheck requestOptions m s = None" and "script s = Reply d payload resp # rest"
  shows "requestApi requestOptions m cb s =
     (if statusCode resp = 401 then
        (case authorize False (sent requestOptions m d s) of
           (Resolved tok, s2) \<Rightarrow> settle (method_js m cb (Some requestOptions) s2)
         | (r, s2) \<Rightarrow> (r, s2))
      else if statusCode resp < 200 \<or> statusCode resp > 299 then
        handleFailure requestOptions cb payload resp (sent requestOptions m d s)
      else handleSuccess requestOptions m cb payload resp (sent requestOptions m d s))"
  using assms by (simp add: requestApi.simps)

text \<open>
  C5, as the code has it. On a status outside 200..299 other than 401, and a body that is
  not \<^verbatim>\<open>null\<close> or \<^verbatim>\<open>undefined\<close>, the caller's callback (if any) and then the error handler
  are called, the handler with the body's \<^verbatim>\<open>Message\<close> and the body, and the call is rejected.
  The rejection is the decoded body alone; it is the response object with the body, and
  so with the status, only when \<^verbatim>\<open>resolveWithFullResponse\<close> is set.
\<close>

theorem requestApi_failure:
  assumes "precheck requestOptions m s = None"
    and "script s = Reply d payload resp # rest"
    and "statusCode resp \<noteq> 401"
    and "statusCode resp < 200 \<or> statusCode resp > 299"
    and "readProp (heap s) payload ''Message'' = Inr msg"
  shows "case requestApi requestOptions m cb s of
           (r, s') \<Rightarrow>
             (if resolveWithFullResponse requestOptions
              then r = Rejected (Full (resp\<lparr>body := Some payload\<rparr>)) \<and>
                   trace s' = trace s @ [requestEvent requestOptions m s] @
                     (if isFunction cb
                      then [Callback (Full (resp\<lparr>body := Some payload\<rparr>)) (resp\<lparr>body := Some payload\<rparr>)]
                      else []) @
                     [ErrorHandler msg payload]
              else r = Rejected (Raw payload) \<and>
                   trace s' = trace s @ [requestEvent requestOptions m s] @
                     (if isFunction cb then [Callback (Raw payload) resp] else []) @
                     [ErrorHandler msg payload])"
  using assms(3-5)
  by (simp add: requestApi_reply [OF assms(1,2)] handleFailure_def resolveArg_def callBack_def
      sent_def emit_def)

theorem requestApi_failure_witness:
  "case requestApi noOptions ''users_get'' CbFunction
          (authorizedApi\<lparr>script := [Reply 3 errorPayload (statusResponse 400)]\<rparr>) of
     (r, s') \<Rightarrow>
       r = Rejected (Raw errorPayload) \<and>
       trace s' = [Request ''users_get'' [] None,
                   Callback (Raw errorPayload) (statusResponse 400),
                   ErrorHandler (JStr ''bad request'') errorPayload]"
proof -
  let ?s = "authorizedApi\<lparr>script := [Reply 3 errorPayload (statusResponse 400)]\<rparr>"
  have p: "precheck noOptions ''users_get'' ?s = None" by code_simp
  have sc: "script ?s = Reply 3 errorPayload (statusResponse 400) # []" by simp
  have st: "statusCode (statusResponse 400) \<noteq> 401"
    "statusCode (statusResponse 400) < 200 \<or> statusCode (statusResponse 400) > 299"
    by (simp_all add: statusResponse_def)
  have rp: "readProp (heap ?s) errorPayload ''Message'' = Inr (JStr ''bad request'')"
    by code_simp
  have e: "requestEvent noOptions ''users_get'' ?s = Request ''users_get'' [] None"
    "trace ?s = []" "\<not> resolveWithFullResponse noOptions" "isFunction CbFunction"
    by code_simp+
  from requestApi_failure [OF p sc st rp, of CbFunction] e
  show ?thesis by (simp split: prod.splits)
qed

text \<open>
  The claim as it is written fails: the rejection does not carry the status. A 400 and a
  500 with the same body are rejected with the same value, the body.
\<close>

theorem requestApi_failure_status_counterexample:
  "fst (requestApi noOptions ''users_get'' CbAbsent
          (authorizedApi\<lparr>script := [Reply 3 errorPayload (statusResponse 400)]\<rparr>)) =
     Rejected (Raw errorPayload) \<and>
   fst (requestApi noOptions ''users_get'' CbAbsent
          (authorizedApi\<lparr>script := [Reply 3 errorPayload (statusResponse 500)]\<rparr>)) =
     Rejected (Raw errorPayload)"
  by code_simp

lemma precheck_registered:
  "m \<noteq> [] \<Longrightarrow> m \<notin> set manualVerbs \<Longrightarrow> m \<in> set (registered s) \<Longrightarrow>
     precheck requestOptions m s = None"
  by (simp add: precheck_def)

text \<open>
  C7, as the code has it. A call through a registered endpoint method, without
  \<^verbatim>\<open>resolveWithFullResponse\<close>, that is answered with a status in 200..299 and a list,
  resolves with the instances of the configured class built from the elements of the list,
  in their order.
\<close>

theorem requestApi_models:
  assumes "m \<noteq> []" and "m \<notin> set manualVerbs" and "m \<in> set (registered s)"
    and "script s = Reply d (JArr items) resp # rest"
    and "200 \<le> statusCode resp" and "statusCode resp \<le> 299"
    and "dataClass requestOptions = Some c"
    and "\<not> resolveWithFullResponse requestOptions"
  shows "fst (requestApi requestOptions m cb s) = Resolved (Models (map (New c) items)) \<and>
         length (map (New c) items) = length items \<and>
         (\<forall>i<length items. map (New c) items ! i = New c (items ! i))"
  using assms(2,5-8)
  by (simp add: requestApi_reply [OF precheck_registered [OF assms(1-3)] assms(4)]
      handleSuccess_def resolveArg_def Let_def)

theorem requestApi_models_witness:
  "fst (requestApi (noOptions\<lparr>dataClass := Some ''User''\<rparr>) ''users_all'' CbAbsent
          (authorizedApi\<lparr>script := [Reply 3 userList okResponse]\<rparr>)) =
     Resolved (Models [New ''User'' (JObj [(''Id'', JStr ''7'')]),
                       New ''User'' (JObj [(''Id'', JStr ''8'')])])"
proof -
  let ?s = "authorizedApi\<lparr>script := [Reply 3 userList okResponse]\<rparr>"
  have a: "''users_all'' \<noteq> []" "''users_all'' \<notin> set manualVerbs"
    "''users_all'' \<in> set (registered ?s)"
    by code_simp+
  have sc: "script ?s = Reply 3 (JArr [JObj [(''Id'', JStr ''7'')], JObj [(''Id'', JStr ''8'')]])
      okResponse # []"
    by (simp add: userList_def)
  have st: "200 \<le> statusCode okResponse" "statusCode okResponse \<le> 299"
    by (simp_all add: okResponse_def)
  have dc: "dataClass (noOptions\<lparr>dataClass := Some ''User''\<rparr>) = Some ''User''"
    "\<not> resolveWithFullResponse (noOptions\<lparr>dataClass := Some ''User''\<rparr>)"
    by (simp_all add: noOptions_def)
  from requestApi_models [OF a sc st dc, of CbAbsent]
  show ?thesis by simp
qed

text \<open>
  The claim as it is written fails for the manual verbs: a \<^verbatim>\<open>get\<close> with a model class
  configured resolves with the raw list.
\<close>

theorem requestApi_manual_raw_counterexample:
  "fst (requestApi (noOptions\<lparr>dataClass := Some ''User'', url := Some ''https://api/users''\<rparr>)
          ''get'' CbAbsent (authorizedApi\<lparr>script := [Reply 3 userList okResponse]\<rparr>)) =
     Resolved (Raw userList)"
  by code_simp

lemma length_toJSONEffect: "length (toJSONEffect h a) = length h"
  by (simp add: toJSONEffect_def length_setProps split: option.splits)

lemma length_inlineSubObjectsAt: "length (snd (inlineSubObjectsAt a ks requestData h)) = length h"
  by (induction ks arbitrary: requestData h)
    (auto simp: length_toJSONEffect split: option.splits jsval.splits)

lemma length_buildRequestDataAt: "length (snd (buildRequestDataAt h a)) = length h"
  by (simp add: buildRequestDataAt_def Let_def length_inlineSubObjectsAt)

lemma cls_toJSONEffect: "cls (deref (toJSONEffect h r) a) = cls (deref h a)"
  by (simp add: toJSONEffect_def deref_setProps split: option.splits)

lemma json_toJSONEffect: "json (deref (toJSONEffect h r) a) = json (deref h a)"
  by (simp add: toJSONEffect_def deref_setProps split: option.splits)

lemma deref_toJSONEffect: "r \<noteq> a \<Longrightarrow> deref (toJSONEffect h r) a = deref h a"
  by (simp add: toJSONEffect_def deref_setProps split: option.splits)

text \<open>
  The payload that \<^verbatim>\<open>method\<close> builds is the one of \<open>buildRequestData\<close>, for an entity that is
  not a property of itself: the writes of the \<^verbatim>\<open>toJSON()\<close> calls then go to other objects.
\<close>

lemma inlineSubObjectsAt_payload:
  assumes "\<forall>key. getProp (props entity) key \<noteq> JRef a"
    and "deref h' a = entity" and "\<forall>r. json (deref h' r) = json (deref h r)"
  shows "fst (inlineSubObjectsAt a ks requestData h') = inlineSubObjects h entity ks requestData"
  using assms(2,3)
proof (induction ks arbitrary: requestData h')
  case Nil
  then show ?case by simp
next
  case (Cons key ks)
  show ?case
  proof (cases "canReadSubRequestData entity key")
    case False
    with Cons show ?thesis by simp
  next
    case True
    show ?thesis
    proof (cases "getProp (props entity) key")
      case (JRef r)
      with assms(1) have ra: "r \<noteq> a" by metis
      show ?thesis
      proof (cases "json (deref h r)")
        case None
        with True JRef Cons.prems show ?thesis by (simp add: callToJSON_def)
      next
        case (Some j)
        have d: "deref (toJSONEffect h' r) a = entity"
          using ra Cons.prems(1) by (simp add: deref_toJSONEffect)
        have j: "\<forall>x. json (deref (toJSONEffect h' r) x) = json (deref h x)"
          using Cons.prems(2) by (simp add: json_toJSONEffect)
        from Cons.IH [OF d j, of "extend_js requestData j"] True JRef Some Cons.prems
        show ?thesis by (simp add: callToJSON_def)
      qed
    qed (use True Cons.prems in \<open>simp_all add: callToJSON_def\<close>)
  qed
qed

lemma buildRequestDataAt_payload:
  assumes "\<forall>key. getProp (props (deref h a)) key \<noteq> JRef a"
  shows "fst (buildRequestDataAt h a) = buildRequestData h (deref h a)"
  using inlineSubObjectsAt_payload [OF assms, of h h]
  by (simp add: buildRequestDataAt_def buildRequestData_def Let_def)

text \<open>
  A pay-in whose payment details get a property from their \<^verbatim>\<open>toJSON\<close>: the details are
  written, the pay-in stays as it is, and the data of the call is a new object.
\<close>

lemma convertData_nested_example:
  "(case convertData (noOptions\<lparr>data := Some 1\<rparr>)
           (authorizedApi\<lparr>heap := [cardDetails\<lparr>props := [(''CardId'', JStr ''c1'')]\<rparr>, cardPayIn]\<rparr>) of
      Inr (opts', s') \<Rightarrow>
        data opts' = Some 2 \<and>
        props (deref (heap s') 0) = [(''CardId'', JStr ''c1''), (''Id'', JStr ''d9'')] \<and>
        deref (heap s') 1 = cardPayIn \<and>
        props (deref (heap s') 2) =
          [(''Tag'', JStr ''t''), (''PaymentDetails'', JRef 0), (''CardId'', JStr ''c1''),
           (''Id'', JStr ''d9'')]
    | Inl e \<Rightarrow> False)"
  by code_simp

text \<open>
  An object whose \<^verbatim>\<open>toJSON\<close> returns the object itself stays the data of the call, and the
  answer is merged into it.
\<close>

lemma method_toJSON_self_example:
  "props (deref (heap (snd (method_js ''users_create'' CbAbsent (Some (noOptions\<lparr>data := Some 5\<rparr>))
          (authorizedApi\<lparr>script := [Reply 3 userPayload okResponse]\<rparr>)))) 5) =
     [(''Amount'', JNum (Num 12)), (''Id'', JStr ''7''), (''FirstName'', JStr ''Ada''),
      (''data'', userPayload)]"
  by code_simp

text \<open>
  C9, as the code has it, in three steps of a call through a registered endpoint method.
  When \<^verbatim>\<open>_requestApi\<close> receives an answer with a status in 200..299, it extends in place the
  object that \<^verbatim>\<open>requestOptions.data\<close> refers to, with the fields of the payload and with the
  payload under \<^verbatim>\<open>data\<close>, whatever \<^verbatim>\<open>dataClass\<close> is, and in handling the answer it writes
  to no other object of the heap: the caller's other objects, the default headers and
  the entities stay as they are (the rate-limit snapshot, which is not kept on the heap,
  is brought up to date). Which object is extended is decided by the first step of
  \<^verbatim>\<open>method\<close>. It leaves in \<^verbatim>\<open>options.data\<close> the caller's own object, after the call of its \<^verbatim>\<open>toJSON\<close> if it
  has one, when that object is not an entity and either has no \<^verbatim>\<open>toJSON\<close> method or has
  one that returns the object itself. Otherwise, for an entity and for an object whose
  \<^verbatim>\<open>toJSON\<close> returns a new object, it leaves there a new object, which is none of the
  objects there were before. The merge of the request options hands this reference on to
  \<^verbatim>\<open>_requestApi\<close>.
\<close>

theorem requestApi_extends_data:
  "(m \<noteq> [] \<and> m \<notin> set manualVerbs \<and> m \<in> set (registered s) \<and>
    script s = Reply d payload resp # rest \<and>
    200 \<le> statusCode resp \<and> statusCode resp \<le> 299 \<and>
    data requestOptions = Some a \<and> a < length (heap s) \<longrightarrow>
      (case requestApi requestOptions m cb s of
         (r, s') \<Rightarrow>
           (\<exists>v. r = Resolved v) \<and>
           map_of (props (deref (heap s') a)) =
             map_of (props (deref (heap s) a)) ++ map_of (allKeys payload) ++ [''data'' \<mapsto> payload] \<and>
           (\<forall>b. b \<noteq> a \<longrightarrow> deref (heap s') b = deref (heap s) b))) \<and>
   (data opts = Some a \<and> convertData opts s = Inr (opts', s') \<longrightarrow>
      (if cls (deref (heap s) a) = None \<and>
          (json (deref (heap s) a) = None \<or> jsonSelf (deref (heap s) a))
       then data opts' = Some a \<and> heap s' = toJSONEffect (heap s) a
       else data opts' = Some (length (heap s)) \<and>
            (\<exists>h ps. length h = length (heap s) \<and> heap s' = h @ [plainObj ps]))) \<and>
   (buildRequestOptions opts s = (requestOptions, s') \<longrightarrow> data requestOptions = data opts)"
proof (intro conjI impI)
  assume h: "m \<noteq> [] \<and> m \<notin> set manualVerbs \<and> m \<in> set (registered s) \<and>
    script s = Reply d payload resp # rest \<and>
    200 \<le> statusCode resp \<and> statusCode resp \<le> 299 \<and>
    data requestOptions = Some a \<and> a < length (heap s)"
  then have p: "precheck requestOptions m s = None" and sc: "script s = Reply d payload resp # rest"
    by (simp_all add: precheck_registered)
  from h show "case requestApi requestOptions m cb s of
         (r, s') \<Rightarrow>
           (\<exists>v. r = Resolved v) \<and>
           map_of (props (deref (heap s') a)) =
             map_of (props (deref (heap s) a)) ++ map_of (allKeys payload) ++ [''data'' \<mapsto> payload] \<and>
           (\<forall>b. b \<noteq> a \<longrightarrow> deref (heap s') b = deref (heap s) b)"
    by (simp add: requestApi_reply [OF p sc] handleSuccess_def resolveArg_def Let_def
        extendData_def callBack_def sent_def emit_def deref_setProps map_of_extend_js)
next
  assume c: "data opts = Some a \<and> convertData opts s = Inr (opts', s')"
  show "if cls (deref (heap s) a) = None \<and>
          (json (deref (heap s) a) = None \<or> jsonSelf (deref (heap s) a))
       then data opts' = Some a \<and> heap s' = toJSONEffect (heap s) a
       else data opts' = Some (length (heap s)) \<and>
            (\<exists>h ps. length h = length (heap s) \<and> heap s' = h @ [plainObj ps])"
  proof (cases "cls (deref (heap s) a)")
    case (Some c')
    with c show ?thesis
      using length_buildRequestDataAt [of "heap s" a]
      by (fastforce simp: convertData_def alloc_def split: sum.splits prod.splits)
  next
    case None
    show ?thesis
    proof (cases "json (deref (heap s) a)")
      case N: None
      with None c show ?thesis by (auto simp: convertData_def toJSONEffect_def)
    next
      case (Some j)
      with None c show ?thesis
        by (cases "jsonSelf (deref (heap s) a)")
          (fastforce simp: convertData_def alloc_def length_toJSONEffect)+
    qed
  qed
next
  assume "buildRequestOptions opts s = (requestOptions, s')"
  then show "data requestOptions = data opts"
    by (auto simp: buildRequestOptions_def Let_def split: option.splits if_splits)
qed

theorem requestApi_extends_data_witness:
  "(case requestApi (noOptions\<lparr>data := Some 3, dataClass := Some ''User''\<rparr>) ''users_create'' CbAbsent
          (authorizedApi\<lparr>script := [Reply 3 userPayload okResponse]\<rparr>) of
      (r, s') \<Rightarrow>
        (\<exists>v. r = Resolved v) \<and>
        getProp (props (deref (heap s') 3)) ''FirstName'' = JStr ''Ada'' \<and>
        getProp (props (deref (heap s') 3)) ''Id'' = JStr ''7'' \<and>
        getProp (props (deref (heap s') 3)) ''data'' = userPayload) \<and>
   (case convertData (noOptions\<lparr>data := Some 4\<rparr>) authorizedApi of
      Inr (opts', s') \<Rightarrow> data opts' = Some 6 \<and> length (heap s') = 7
    | Inl e \<Rightarrow> False) \<and>
   (case convertData (noOptions\<lparr>data := Some 5\<rparr>) authorizedApi of
      Inr (opts', s') \<Rightarrow>
        data opts' = Some 5 \<and> props (deref (heap s') 5) = [(''Amount'', JNum (Num 12))]
    | Inl e \<Rightarrow> False) \<and>
   data (fst (buildRequestOptions (noOptions\<lparr>data := Some 6\<rparr>) authorizedApi)) = Some 6"
proof -
  let ?o5 = "noOptions\<lparr>data := Some 5\<rparr>"
  let ?s5 = "authorizedApi\<lparr>heap := toJSONEffect (heap authorizedApi) 5\<rparr>"
  let ?s = "authorizedApi\<lparr>script := [Reply 3 userPayload okResponse]\<rparr>"
  let ?ro = "noOptions\<lparr>data := Some 3, dataClass := Some ''User''\<rparr>"
  let ?o4 = "noOptions\<lparr>data := Some 4\<rparr>"
  let ?o6 = "noOptions\<lparr>data := Some 6\<rparr>"
  let ?s6 = "authorizedApi\<lparr>heap := heap authorizedApi @ [plainObj [(''FirstName'', JStr ''Ada'')]]\<rparr>"
  have a: "''users_create'' \<noteq> [] \<and> ''users_create'' \<notin> set manualVerbs \<and>
      ''users_create'' \<in> set (registered ?s) \<and>
      script ?s = Reply 3 userPayload okResponse # [] \<and>
      200 \<le> statusCode okResponse \<and> statusCode okResponse \<le> 299 \<and>
      data ?ro = Some 3 \<and> 3 < length (heap ?s)"
    by code_simp
  have e: "props (deref (heap ?s) 3) = [(''FirstName'', JStr ''Ada'')]"
    "allKeys userPayload = [(''Id'', JStr ''7''), (''FirstName'', JStr ''Ada'')]"
    by code_simp+
  have c: "convertData ?o4 authorizedApi = Inr (?o6, ?s6)"
    by code_simp
  have b: "data ?o4 = Some 4" "cls (deref (heap authorizedApi) 4) \<noteq> None"
    "length (heap authorizedApi) = 6"
    by (simp_all add: noOptions_def authorizedApi_def deref_def)
  obtain ro s7 where r: "buildRequestOptions ?o6 authorizedApi = (ro, s7)"
    by (cases "buildRequestOptions ?o6 authorizedApi")
  from requestApi_extends_data [of "''users_create''" ?s 3 userPayload okResponse "[]" ?ro 3
      CbAbsent ?o4 ?o6 ?s6] a e b c
  have "case requestApi ?ro ''users_create'' CbAbsent ?s of
      (r, s') \<Rightarrow>
        (\<exists>v. r = Resolved v) \<and>
        getProp (props (deref (heap s') 3)) ''FirstName'' = JStr ''Ada'' \<and>
        getProp (props (deref (heap s') 3)) ''Id'' = JStr ''7'' \<and>
        getProp (props (deref (heap s') 3)) ''data'' = userPayload"
    "case convertData ?o4 authorizedApi of
      Inr (opts', s') \<Rightarrow> data opts' = Some 6 \<and> length (heap s') = 7
    | Inl e \<Rightarrow> False"
    by (auto simp: getProp_def split: prod.splits)
  moreover have c5: "convertData ?o5 authorizedApi = Inr (?o5, ?s5)"
    "data ?o5 = Some 5" "cls (deref (heap authorizedApi) 5) = None"
    "jsonSelf (deref (heap authorizedApi) 5)"
    "props (deref (toJSONEffect (heap authorizedApi) 5) 5) = [(''Amount'', JNum (Num 12))]"
    by code_simp+
  from requestApi_extends_data [where opts = ?o5 and a = 5 and s = authorizedApi
      and opts' = ?o5 and s' = ?s5] c5
  have "case convertData ?o5 authorizedApi of
      Inr (opts', s') \<Rightarrow>
        data opts' = Some 5 \<and> props (deref (heap s') 5) = [(''Amount'', JNum (Num 12))]
    | Inl e \<Rightarrow> False"
    by simp
  moreover from requestApi_extends_data [of _ _ _ _ _ _ ro _ _ ?o6 _ s7, where s = authorizedApi] r
  have "data (fst (buildRequestOptions ?o6 authorizedApi)) = Some 6"
    by (simp add: noOptions_def)
  ultimately show ?thesis by simp
qed

text \<open>
  The claim as it is written fails for an entity: after a successful call the caller's
  entity is what it was, without a \<^verbatim>\<open>data\<close> property.
\<close>

theorem method_entity_untouched_counterexample:
  "fst (method_js ''users_create'' CbAbsent (Some (noOptions\<lparr>data := Some 4\<rparr>))
          (authorizedApi\<lparr>script := [Reply 3 userPayload okResponse]\<rparr>)) =
     Resolved (Raw userPayload) \<and>
   deref (heap (snd (method_js ''users_create'' CbAbsent (Some (noOptions\<lparr>data := Some 4\<rparr>))
          (authorizedApi\<lparr>script := [Reply 3 userPayload okResponse]\<rparr>)))) 4 =
     deref (heap authorizedApi) 4 \<and>
   getProp (props (deref (heap (snd (method_js ''users_create'' CbAbsent
          (Some (noOptions\<lparr>data := Some 4\<rparr>))
          (authorizedApi\<lparr>script := [Reply 3 userPayload okResponse]\<rparr>)))) 4)) ''data'' =
     JUndefined"
  by code_simp

subsection \<open>Retries after a 401\<close>




























end
